theory Spec2Isabelle
  imports Main
begin

section \<open>The 3-qubit bit-flip code notebook\<close>

text \<open>
  The notebook \<^verbatim>\<open>3-qubit-code.py\<close> defines an enumeration of eleven error scenarios and
  three helpers: \<^verbatim>\<open>qcirc\<close> builds a circuit, \<^verbatim>\<open>qcirc_sim\<close> runs it on a simulator and
  \<^verbatim>\<open>counts_bit_reversed\<close> re-keys the histogram that comes back. The cells after them
  call the three in a row, once per scenario.
\<close>

subsection \<open>Python values and exceptions\<close>

datatype ErrorSims =
  NoError | XError1 | XError2 | XError3 | XError12 | XError13 | XError23
  | ZError1 | ZError2 | YError1 | YError2

datatype error =
  CircuitError | QiskitError | KeyError | IndexError | NameError | OtherError string

text \<open>
  Python does not enforce the annotation \<^verbatim>\<open>i: ErrorSims\<close>, so \<^verbatim>\<open>qcirc\<close> can be handed any
  object: a member of the enumeration, an integer, a string, \<^verbatim>\<open>None\<close>, or an object of a
  class with an \<^verbatim>\<open>__eq__\<close> of its own, which is given here by what \<^verbatim>\<open>i == member\<close> does for
  each member: it raises, or it answers true or false.
\<close>

datatype pyobj =
  Member ErrorSims | PyInt int | PyStr string | PyNone
  | PyObject "ErrorSims \<Rightarrow> error + bool"

text \<open>
  \<^verbatim>\<open>i == member\<close>. A member of the enumeration is equal to itself only; an integer, a
  string and \<^verbatim>\<open>None\<close> are equal to no member (\<^verbatim>\<open>ErrorSims\<close> is an \<^verbatim>\<open>Enum\<close>, not an \<^verbatim>\<open>IntEnum\<close>).
\<close>

fun py_eq :: "pyobj \<Rightarrow> ErrorSims \<Rightarrow> error + bool" where
  "py_eq (Member s) t = Inr (s = t)"
| "py_eq (PyInt n) t = Inr False"
| "py_eq (PyStr s) t = Inr False"
| "py_eq PyNone t = Inr False"
| "py_eq (PyObject eq) t = eq t"

text \<open>A dictionary keeps its keys in insertion order: an association list.\<close>

type_synonym ('k, 'v) dict = "('k \<times> 'v) list"

definition keys :: "('k, 'v) dict \<Rightarrow> 'k list" where
  "keys d = map fst d"

fun dict_get :: "('k, 'v) dict \<Rightarrow> 'k \<Rightarrow> error + 'v" where
  "dict_get [] k = Inl KeyError"
| "dict_get ((k', v) # d) k = (if k' = k then Inr v else dict_get d k)"

text \<open>\<^verbatim>\<open>d[k] = v\<close>: an existing key keeps its place, a new one goes to the end.\<close>

fun dict_set :: "('k, 'v) dict \<Rightarrow> 'k \<Rightarrow> 'v \<Rightarrow> ('k, 'v) dict" where
  "dict_set [] k v = [(k, v)]"
| "dict_set ((k', v') # d) k v =
     (if k' = k then (k, v) # d else (k', v') # dict_set d k v)"

text \<open>\<^verbatim>\<open>xs[0]\<close> raises on an empty list.\<close>

fun first :: "'a list \<Rightarrow> error + 'a" where
  "first [] = Inl IndexError"
| "first (x # xs) = Inr x"

type_synonym Counts = "(string, nat) dict"

subsection \<open>\<^verbatim>\<open>counts_bit_reversed\<close>\<close>

text \<open>
  \<^verbatim>\<open>
  def counts_bit_reversed(counts: str) -> dict:
      a = {}
      for b in counts:
          a[''.join( [i for i in list(counts.keys())[0] ][::-1] )] = counts[b]
      return a
  \<close>
  The loop runs over the keys of \<^verbatim>\<open>counts\<close>. In each round the right-hand side
  \<^verbatim>\<open>counts[b]\<close> is evaluated first, then the key, which is the reversal of the first key
  of \<^verbatim>\<open>counts\<close> whatever \<^verbatim>\<open>b\<close> is.
\<close>

fun counts_bit_reversed_loop ::
  "Counts \<Rightarrow> string list \<Rightarrow> Counts \<Rightarrow> error + Counts" where
  "counts_bit_reversed_loop counts [] a = Inr a"
| "counts_bit_reversed_loop counts (b # bs) a =
     (case dict_get counts b of
        Inl e \<Rightarrow> Inl e
      | Inr v \<Rightarrow>
          (case first (keys counts) of
             Inl e \<Rightarrow> Inl e
           | Inr k0 \<Rightarrow> counts_bit_reversed_loop counts bs (dict_set a (rev k0) v)))"

definition counts_bit_reversed :: "Counts \<Rightarrow> error + Counts" where
  "counts_bit_reversed counts = counts_bit_reversed_loop counts (keys counts) []"

subsection \<open>Circuits of the simulation library\<close>

text \<open>
  Modelled from the spec: the quantum-circuit simulation library (circuit construction
  primitives, a simulator execution call and a result accessor, in the spec's words) is
  external and none of it is under \<^verbatim>\<open>src/\<close>. This subsection models the construction
  primitives that \<^verbatim>\<open>qcirc\<close> calls: a circuit is its quantum registers, its classical
  registers and the list of instructions appended so far; an instruction is appended
  when its qubits and classical bits belong to the circuit, and raises otherwise.
\<close>

datatype qubit = Qubit string nat

datatype clbit = Clbit string nat

type_synonym register = "string \<times> nat"

datatype instruction =
  IGate qubit | XGate qubit | YGate qubit | ZGate qubit
  | CXGate qubit qubit | Barrier "qubit list" | Measure qubit clbit

record circuit =
  qregs :: "register list"
  cregs :: "register list"
  data :: "instruction list"

definition register_bits :: "register \<Rightarrow> nat list" where
  "register_bits r = [0..<snd r]"

definition qubits :: "circuit \<Rightarrow> qubit list" where
  "qubits qc = concat (map (\<lambda>r. map (Qubit (fst r)) (register_bits r)) (qregs qc))"

definition clbits :: "circuit \<Rightarrow> clbit list" where
  "clbits qc = concat (map (\<lambda>r. map (Clbit (fst r)) (register_bits r)) (cregs qc))"

definition QuantumCircuit :: "register list \<Rightarrow> register list \<Rightarrow> circuit" where
  "QuantumCircuit qs cs = \<lparr>qregs = qs, cregs = cs, data = []\<rparr>"

fun instruction_qubits :: "instruction \<Rightarrow> qubit list" where
  "instruction_qubits (IGate t) = [t]"
| "instruction_qubits (XGate t) = [t]"
| "instruction_qubits (YGate t) = [t]"
| "instruction_qubits (ZGate t) = [t]"
| "instruction_qubits (CXGate c t) = [c, t]"
| "instruction_qubits (Barrier ts) = ts"
| "instruction_qubits (Measure t b) = [t]"

fun instruction_clbits :: "instruction \<Rightarrow> clbit list" where
  "instruction_clbits (Measure t b) = [b]"
| "instruction_clbits _ = []"

definition append_instruction :: "instruction \<Rightarrow> circuit \<Rightarrow> error + circuit" where
  "append_instruction ins qc =
     (if list_all (\<lambda>t. t \<in> set (qubits qc)) (instruction_qubits ins)
         \<and> distinct (instruction_qubits ins)
         \<and> list_all (\<lambda>b. b \<in> set (clbits qc)) (instruction_clbits ins)
      then Inr (qc\<lparr>data := data qc @ [ins]\<rparr>)
      else Inl CircuitError)"

text \<open>The classical bits that the measurements of a circuit write, in their order.\<close>

definition measured_clbits :: "circuit \<Rightarrow> clbit list" where
  "measured_clbits qc = concat (map instruction_clbits (data qc))"

text \<open>A block of statements on the circuit: the first that raises ends the block.\<close>

fun statements :: "(circuit \<Rightarrow> error + circuit) list \<Rightarrow> circuit \<Rightarrow> error + circuit" where
  "statements [] qc = Inr qc"
| "statements (f # fs) qc =
     (case f qc of Inl e \<Rightarrow> Inl e | Inr qc' \<Rightarrow> statements fs qc')"

text \<open>The methods \<^verbatim>\<open>qc.i\<close>, \<^verbatim>\<open>qc.x\<close>, \<^verbatim>\<open>qc.y\<close>, \<^verbatim>\<open>qc.z\<close>, \<^verbatim>\<open>qc.cx\<close>, \<^verbatim>\<open>qc.barrier\<close>.\<close>

definition qc_i :: "qubit \<Rightarrow> circuit \<Rightarrow> error + circuit" where
  "qc_i t = append_instruction (IGate t)"

definition qc_x :: "qubit \<Rightarrow> circuit \<Rightarrow> error + circuit" where
  "qc_x t = append_instruction (XGate t)"

definition qc_y :: "qubit \<Rightarrow> circuit \<Rightarrow> error + circuit" where
  "qc_y t = append_instruction (YGate t)"

definition qc_z :: "qubit \<Rightarrow> circuit \<Rightarrow> error + circuit" where
  "qc_z t = append_instruction (ZGate t)"

definition qc_cx :: "qubit \<Rightarrow> qubit \<Rightarrow> circuit \<Rightarrow> error + circuit" where
  "qc_cx c t = append_instruction (CXGate c t)"

text \<open>\<^verbatim>\<open>qc.barrier()\<close> with no argument spans every qubit of the circuit.\<close>

definition qc_barrier :: "circuit \<Rightarrow> error + circuit" where
  "qc_barrier qc = append_instruction (Barrier (qubits qc)) qc"

text \<open>\<^verbatim>\<open>qc.measure(qs, cs)\<close> measures the qubits pairwise into the classical bits.\<close>

definition qc_measure :: "qubit list \<Rightarrow> clbit list \<Rightarrow> circuit \<Rightarrow> error + circuit" where
  "qc_measure ts bs qc =
     (if length ts = length bs
      then statements (map (\<lambda>(t, b). append_instruction (Measure t b)) (zip ts bs)) qc
      else Inl CircuitError)"

text \<open>
  \<^verbatim>\<open>qc.measure_all()\<close> adds a classical register \<^verbatim>\<open>meas\<close> with one bit per qubit, a
  barrier, and the measurement of every qubit into the bit of its own position.
\<close>

definition qc_measure_all :: "circuit \<Rightarrow> error + circuit" where
  "qc_measure_all qc =
     (let n = length (qubits qc);
          qc' = qc\<lparr>cregs := cregs qc @ [(''meas'', n)]\<rparr>
      in statements
           [qc_barrier, qc_measure (qubits qc') (map (Clbit ''meas'') [0..<n])] qc')"

subsection \<open>\<^verbatim>\<open>qcirc\<close>\<close>

text \<open>
  The registers of \<^verbatim>\<open>qcirc\<close>: \<^verbatim>\<open>q\<close> (one data qubit), \<^verbatim>\<open>d\<close> (two redundancy qubits),
  \<^verbatim>\<open>a\<close> (two ancilla qubits) and, unless \<^verbatim>\<open>measure_all\<close>, \<^verbatim>\<open>c\<close> (two classical bits).
  The source passes the register \<^verbatim>\<open>q\<close> itself to the gate methods, which stands for its
  only qubit.
\<close>

definition q_reg :: register where "q_reg = (''q'', 1)"
definition d_reg :: register where "d_reg = (''d'', 2)"
definition a_reg :: register where "a_reg = (''a'', 2)"
definition c_reg :: register where "c_reg = (''c'', 2)"

definition q :: qubit where "q = Qubit ''q'' 0"
definition d0 :: qubit where "d0 = Qubit ''d'' 0"
definition d1 :: qubit where "d1 = Qubit ''d'' 1"
definition a0 :: qubit where "a0 = Qubit ''a'' 0"
definition a1 :: qubit where "a1 = Qubit ''a'' 1"
definition c0 :: clbit where "c0 = Clbit ''c'' 0"
definition c1 :: clbit where "c1 = Clbit ''c'' 1"

text \<open>
  The \<^verbatim>\<open>match i:\<close> statement. Its eleven clauses are value patterns: they are tried in
  the order of the source, each by \<^verbatim>\<open>i == member\<close>, and the first that answers true runs
  its body. A comparison that raises ends \<^verbatim>\<open>qcirc\<close> with that exception. There is no
  wildcard clause: a subject that equals none of the eleven members runs no body, and
  execution goes on after the statement.
\<close>

definition case_clauses :: "(ErrorSims \<times> (circuit \<Rightarrow> error + circuit) list) list" where
  "case_clauses =
     [(NoError, [qc_i q, qc_i d0, qc_i d1]),
      (XError1, [qc_x q, qc_i d0, qc_i d1]),
      (XError2, [qc_i q, qc_x d0, qc_i d1]),
      (XError3, [qc_i q, qc_i d0, qc_x d1]),
      (XError12, [qc_x q, qc_x d0, qc_i d1]),
      (XError13, [qc_x q, qc_i d0, qc_x d1]),
      (XError23, [qc_i q, qc_x d0, qc_x d1]),
      (ZError1, [qc_z q, qc_i d0, qc_i d1]),
      (ZError2, [qc_i q, qc_z d0, qc_i d1]),
      (YError1, [qc_y q, qc_i d0, qc_i d1]),
      (YError2, [qc_i q, qc_y d0, qc_i d1])]"

fun match_clauses :: "pyobj \<Rightarrow> (ErrorSims \<times> 'b list) list \<Rightarrow> error + 'b list" where
  "match_clauses i [] = Inr []"
| "match_clauses i ((t, body) # cs) =
     (case py_eq i t of
        Inl e \<Rightarrow> Inl e
      | Inr equal \<Rightarrow> if equal then Inr body else match_clauses i cs)"

definition match_i :: "pyobj \<Rightarrow> error + (circuit \<Rightarrow> error + circuit) list" where
  "match_i i = match_clauses i case_clauses"

definition match_statement :: "pyobj \<Rightarrow> circuit \<Rightarrow> error + circuit" where
  "match_statement i qc =
     (case match_i i of Inl e \<Rightarrow> Inl e | Inr body \<Rightarrow> statements body qc)"

text \<open>The body of \<^verbatim>\<open>qcirc\<close> after \<^verbatim>\<open>qc\<close> is created, and the circuit it is created as.\<close>

definition qcirc_body :: "pyobj \<Rightarrow> bool \<Rightarrow> (circuit \<Rightarrow> error + circuit) list" where
  "qcirc_body i measure_all =
     [qc_cx q d0, qc_cx d0 d1, qc_barrier,
      match_statement i,
      qc_barrier,
      qc_cx q a0, qc_cx d0 a0, qc_cx q a1, qc_cx d1 a1,
      qc_barrier,
      if measure_all then qc_measure_all else qc_measure [a0, a1] [c0, c1]]"

definition qcirc_new :: "bool \<Rightarrow> circuit" where
  "qcirc_new measure_all =
     (if \<not> measure_all
      then QuantumCircuit [q_reg, d_reg, a_reg] [c_reg]
      else QuantumCircuit [q_reg, d_reg, a_reg] [])"

text \<open>\<^verbatim>\<open>qcirc\<close>, as the circuit that it returns.\<close>

definition qcirc :: "pyobj \<Rightarrow> bool \<Rightarrow> error + circuit" where
  "qcirc i measure_all = statements (qcirc_body i measure_all) (qcirc_new measure_all)"







subsection \<open>The simulator\<close>

text \<open>
  Modelled from the spec: the simulator (statevector propagation, gate application and
  measurement sampling, in the spec's words) belongs to the external library and is not
  under \<^verbatim>\<open>src/\<close>; the spec names these parts and gives their outcomes only through the
  expected syndromes. The model below covers the instructions that \<^verbatim>\<open>qcirc\<close> appends.
  Every run starts with all qubits in the basis state 0, and each of these gates sends a
  basis state to a basis state up to a phase, so the state of a shot is a power of the
  imaginary unit (the phase) and one bit per qubit: the identity and the barrier change
  nothing, \<open>\<sigma>\<^sub>x\<close> flips the bit, \<open>\<sigma>\<^sub>z\<close> negates the amplitude when the bit is 1,
  \<open>\<sigma>\<^sub>y\<close> flips the bit and multiplies by \<open>i\<close> or \<open>-i\<close>, the controlled NOT adds the
  control bit to the target bit, and a measurement copies the bit of a basis state into
  the classical bit.
\<close>

record simstate =
  phase :: nat
  qvalue :: "qubit \<Rightarrow> bool"
  memory :: "clbit \<Rightarrow> bool"

definition initial_state :: simstate where
  "initial_state = \<lparr>phase = 0, qvalue = (\<lambda>_. False), memory = (\<lambda>_. False)\<rparr>"

fun apply_instruction :: "instruction \<Rightarrow> simstate \<Rightarrow> simstate" where
  "apply_instruction (IGate t) s = s"
| "apply_instruction (XGate t) s = s\<lparr>qvalue := (qvalue s)(t := \<not> qvalue s t)\<rparr>"
| "apply_instruction (YGate t) s =
     s\<lparr>phase := (phase s + (if qvalue s t then 3 else 1)) mod 4,
       qvalue := (qvalue s)(t := \<not> qvalue s t)\<rparr>"
| "apply_instruction (ZGate t) s =
     s\<lparr>phase := (phase s + (if qvalue s t then 2 else 0)) mod 4\<rparr>"
| "apply_instruction (CXGate c t) s =
     s\<lparr>qvalue := (qvalue s)(t := (qvalue s t \<noteq> qvalue s c))\<rparr>"
| "apply_instruction (Barrier ts) s = s"
| "apply_instruction (Measure t b) s = s\<lparr>memory := (memory s)(b := qvalue s t)\<rparr>"

definition run_shot :: "circuit \<Rightarrow> simstate" where
  "run_shot qc = fold apply_instruction (data qc) initial_state"

text \<open>
  The key of an outcome: the registers from the last to the first, separated by a
  space, each with its highest bit on the left.
\<close>

definition bit_char :: "bool \<Rightarrow> char" where
  "bit_char b = (if b then CHR ''1'' else CHR ''0'')"

definition register_key :: "(clbit \<Rightarrow> bool) \<Rightarrow> register \<Rightarrow> string" where
  "register_key mem r = map (\<lambda>k. bit_char (mem (Clbit (fst r) k))) (rev (register_bits r))"

fun join_space :: "string list \<Rightarrow> string" where
  "join_space [] = []"
| "join_space [s] = s"
| "join_space (s # t # ss) = s @ '' '' @ join_space (t # ss)"

definition outcome_key :: "circuit \<Rightarrow> string" where
  "outcome_key qc = join_space (map (register_key (memory (run_shot qc))) (rev (cregs qc)))"

text \<open>The histogram of a list of outcomes, in the order of first appearance.\<close>

definition count_outcome :: "string \<Rightarrow> Counts \<Rightarrow> Counts" where
  "count_outcome k d = dict_set d k (case dict_get d k of Inl _ \<Rightarrow> 1 | Inr n \<Rightarrow> n + 1)"

definition histogram :: "string list \<Rightarrow> Counts" where
  "histogram ks = fold count_outcome ks []"

text \<open>
  What \<^verbatim>\<open>qcirc_sim\<close> uses of a simulator: \<^verbatim>\<open>run\<close> gives a job, the job gives a result, the
  result gives its counts, and each of the three may raise.
\<close>

record ('job, 'result) backend =
  run :: "circuit \<Rightarrow> nat \<Rightarrow> error + 'job"
  job_result :: "'job \<Rightarrow> error + 'result"
  get_counts :: "'result \<Rightarrow> error + Counts"

record sim_result =
  num_measured :: nat
  outcomes :: "string list"

text \<open>
  \<^verbatim>\<open>qsim = QasmSimulator()\<close>: every shot of a circuit gives the key of its outcome. The
  result of a circuit that measures nothing has no counts, and asking for them raises.
\<close>

definition qsim :: "(sim_result, sim_result) backend" where
  "qsim =
     \<lparr>run = (\<lambda>qc shots.
        Inr \<lparr>num_measured = length (measured_clbits qc),
             outcomes = replicate shots (outcome_key qc)\<rparr>),
      job_result = Inr,
      get_counts = (\<lambda>r.
        if num_measured r = 0 then Inl QiskitError else Inr (histogram (outcomes r)))\<rparr>"

subsection \<open>\<^verbatim>\<open>qcirc_sim\<close>\<close>

text \<open>
  \<^verbatim>\<open>
  def qcirc_sim(qc: QuantumCircuit) -> Counts:
      job = qsim.run(qc, shots=1024)
      result = job.result()
      counts = result.get_counts()
      return counts
  \<close>
  The global \<^verbatim>\<open>qsim\<close> is a parameter here.
\<close>

definition qcirc_sim :: "('job, 'result) backend \<Rightarrow> circuit \<Rightarrow> error + Counts" where
  "qcirc_sim sim qc =
     (case run sim qc 1024 of
        Inl e \<Rightarrow> Inl e
      | Inr job \<Rightarrow>
          (case job_result sim job of
             Inl e \<Rightarrow> Inl e
           | Inr result \<Rightarrow>
               (case get_counts sim result of
                  Inl e \<Rightarrow> Inl e
                | Inr counts \<Rightarrow> Inr counts)))"

subsection \<open>The scenario cells\<close>

text \<open>
  Each scenario is two cells on the global variables \<^verbatim>\<open>qc\<close>, \<^verbatim>\<open>counts\<close> and \<^verbatim>\<open>syndrome\<close>:
  \<^verbatim>\<open>
  qc = qcirc(ErrorSims.XError1)
  \<close>
  and
  \<^verbatim>\<open>
  counts: Counts = qcirc_sim(qc)
  syndrome = list(counts_bit_reversed(counts).keys())[0]
  \<close>
  A cell that raises assigns nothing further.
\<close>

record notebook =
  nb_qc :: "circuit option"
  nb_counts :: "Counts option"
  nb_syndrome :: "string option"

definition build_cell :: "pyobj \<Rightarrow> bool \<Rightarrow> notebook \<Rightarrow> error + notebook" where
  "build_cell i measure_all nb =
     (case qcirc i measure_all of
        Inl e \<Rightarrow> Inl e
      | Inr qc \<Rightarrow> Inr (nb\<lparr>nb_qc := Some qc\<rparr>))"

definition syndrome_of :: "Counts \<Rightarrow> error + string" where
  "syndrome_of counts =
     (case counts_bit_reversed counts of
        Inl e \<Rightarrow> Inl e
      | Inr r \<Rightarrow> first (keys r))"

definition run_cell :: "('job, 'result) backend \<Rightarrow> notebook \<Rightarrow> error + notebook" where
  "run_cell sim nb =
     (case nb_qc nb of
        None \<Rightarrow> Inl NameError
      | Some qc \<Rightarrow>
          (case qcirc_sim sim qc of
             Inl e \<Rightarrow> Inl e
           | Inr counts \<Rightarrow>
               (case syndrome_of counts of
                  Inl e \<Rightarrow> Inl e
                | Inr syndrome \<Rightarrow>
                    Inr (nb\<lparr>nb_counts := Some counts, nb_syndrome := Some syndrome\<rparr>))))"

definition scenario ::
  "('job, 'result) backend \<Rightarrow> pyobj \<Rightarrow> bool \<Rightarrow> notebook \<Rightarrow> error + notebook" where
  "scenario sim i measure_all nb =
     (case build_cell i measure_all nb of
        Inl e \<Rightarrow> Inl e
      | Inr nb' \<Rightarrow> run_cell sim nb')"

subsection \<open>Observations on a circuit\<close>

text \<open>
  The instructions that the \<^verbatim>\<open>match\<close> statement of \<^verbatim>\<open>qcirc\<close> appends for a subject \<open>i\<close>,
  read off a circuit over the three quantum registers that was empty before.
\<close>

definition error_gates :: "pyobj \<Rightarrow> instruction list" where
  "error_gates i =
     (case match_statement i (QuantumCircuit [q_reg, d_reg, a_reg] []) of
        Inl e \<Rightarrow> []
      | Inr qc \<Rightarrow> data qc)"

text \<open>The qubits that a circuit measures, in the order of its instructions.\<close>

fun measured :: "instruction \<Rightarrow> qubit list" where
  "measured (Measure t b) = [t]"
| "measured _ = []"

definition measured_qubits :: "circuit \<Rightarrow> qubit list" where
  "measured_qubits qc = concat (map measured (data qc))"

section \<open>Properties\<close>

subsection \<open>Building the circuit\<close>

text \<open>The qubits and classical bits of the circuits that \<^verbatim>\<open>qcirc\<close> works on.\<close>

lemmas names_defs =
  q_reg_def d_reg_def a_reg_def c_reg_def q_def d0_def d1_def a0_def a1_def c0_def c1_def

lemma qubits_qda:
  "qubits \<lparr>qregs = [q_reg, d_reg, a_reg], cregs = cs, data = xs\<rparr> = [q, d0, d1, a0, a1]"
  by (simp add: qubits_def register_bits_def names_defs upt_rec)

lemma clbits_c: "clbits \<lparr>qregs = qs, cregs = [c_reg], data = xs\<rparr> = [c0, c1]"
  by (simp add: clbits_def register_bits_def names_defs upt_rec)

lemma clbits_meas:
  "clbits \<lparr>qregs = qs, cregs = [(''meas'', 5)], data = xs\<rparr>
     = map (Clbit ''meas'') [0, 1, 2, 3, 4]"
  by (simp add: clbits_def register_bits_def upt_rec)

lemma distinct_names:
  "q \<noteq> d0" "q \<noteq> d1" "q \<noteq> a0" "q \<noteq> a1" "d0 \<noteq> d1" "d0 \<noteq> a0" "d0 \<noteq> a1"
  "d1 \<noteq> a0" "d1 \<noteq> a1" "a0 \<noteq> a1" "c0 \<noteq> c1"
  by (simp_all add: names_defs)

text \<open>On these circuits every call of \<^verbatim>\<open>qcirc\<close> appends its instruction; none raises.\<close>

lemma append_gate:
  "set (instruction_qubits ins) \<subseteq> {q, d0, d1, a0, a1} \<Longrightarrow>
   distinct (instruction_qubits ins) \<Longrightarrow> instruction_clbits ins = [] \<Longrightarrow>
   append_instruction ins \<lparr>qregs = [q_reg, d_reg, a_reg], cregs = cs, data = xs\<rparr>
     = Inr \<lparr>qregs = [q_reg, d_reg, a_reg], cregs = cs, data = xs @ [ins]\<rparr>"
  by (auto simp add: append_instruction_def qubits_qda list_all_iff)

lemma append_measure:
  "t \<in> {q, d0, d1, a0, a1} \<Longrightarrow>
   b \<in> set (clbits \<lparr>qregs = [q_reg, d_reg, a_reg], cregs = cs, data = xs\<rparr>) \<Longrightarrow>
   append_instruction (Measure t b) \<lparr>qregs = [q_reg, d_reg, a_reg], cregs = cs, data = xs\<rparr>
     = Inr \<lparr>qregs = [q_reg, d_reg, a_reg], cregs = cs, data = xs @ [Measure t b]\<rparr>"
  by (auto simp add: append_instruction_def qubits_qda list_all_iff)


lemmas gate_defs = qc_cx_def qc_i_def qc_x_def qc_y_def qc_z_def

lemma statements_append:
  "statements (fs @ gs) qc =
     (case statements fs qc of Inl e \<Rightarrow> Inl e | Inr qc' \<Rightarrow> statements gs qc')"
  by (induction fs arbitrary: qc) (auto split: sum.splits)

text \<open>The \<^verbatim>\<open>match\<close> statement: which clause runs.\<close>

lemma match_i_Member:
  "match_i (Member t) = Inr (case t of
                NoError \<Rightarrow> [qc_i q, qc_i d0, qc_i d1]
              | XError1 \<Rightarrow> [qc_x q, qc_i d0, qc_i d1]
              | XError2 \<Rightarrow> [qc_i q, qc_x d0, qc_i d1]
              | XError3 \<Rightarrow> [qc_i q, qc_i d0, qc_x d1]
              | XError12 \<Rightarrow> [qc_x q, qc_x d0, qc_i d1]
              | XError13 \<Rightarrow> [qc_x q, qc_i d0, qc_x d1]
              | XError23 \<Rightarrow> [qc_i q, qc_x d0, qc_x d1]
              | ZError1 \<Rightarrow> [qc_z q, qc_i d0, qc_i d1]
              | ZError2 \<Rightarrow> [qc_i q, qc_z d0, qc_i d1]
              | YError1 \<Rightarrow> [qc_y q, qc_i d0, qc_i d1]
              | YError2 \<Rightarrow> [qc_i q, qc_y d0, qc_i d1])"
  by (cases t) (simp_all add: match_i_def case_clauses_def)

lemma match_i_other: "\<forall>t. py_eq i t = Inr False \<Longrightarrow> match_i i = Inr []"
  by (simp add: match_i_def case_clauses_def)

lemma match_clauses_raises:
  "map fst cs = pre @ t # post \<Longrightarrow> \<forall>s \<in> set pre. py_eq i s = Inr False \<Longrightarrow>
   py_eq i t = Inl e \<Longrightarrow> match_clauses i cs = Inl e"
proof (induction cs arbitrary: pre)
  case Nil
  then show ?case by simp
next
  case (Cons c cs)
  obtain s body where c: "c = (s, body)" by (cases c)
  show ?case
  proof (cases pre)
    case Nil
    with Cons.prems c show ?thesis by simp
  next
    case (Cons s' pre')
    with Cons.prems c have "map fst cs = pre' @ t # post" "\<forall>s \<in> set pre'. py_eq i s = Inr False"
      "py_eq i s = Inr False"
      by simp_all
    with Cons.IH [of pre'] Cons.prems(3) c show ?thesis by simp
  qed
qed

lemma match_clauses_equal:
  "map fst cs = pre @ t # post \<Longrightarrow> \<forall>s \<in> set pre. py_eq i s = Inr False \<Longrightarrow>
   py_eq i t = Inr True \<Longrightarrow> distinct (map fst cs) \<Longrightarrow>
   match_clauses i cs = match_clauses (Member t) cs"
proof (induction cs arbitrary: pre)
  case Nil
  then show ?case by simp
next
  case (Cons c cs)
  obtain s body where c: "c = (s, body)" by (cases c)
  show ?case
  proof (cases pre)
    case Nil
    with Cons.prems c show ?thesis by simp
  next
    case (Cons s' pre')
    with Cons.prems c have p: "map fst cs = pre' @ t # post"
      "\<forall>s \<in> set pre'. py_eq i s = Inr False" "py_eq i s = Inr False" "distinct (map fst cs)"
      and "s \<notin> set (map fst cs)"
      by simp_all
    then have "t \<noteq> s" by auto
    with Cons.IH [OF p(1) p(2) Cons.prems(3) p(4)] p(3) c show ?thesis by simp
  qed
qed

lemma distinct_case_clauses: "distinct (map fst case_clauses)"
  by (simp add: case_clauses_def)

text \<open>The \<^verbatim>\<open>match\<close> statement: what it does to the circuit.\<close>

lemma match_statement_Member:
  "match_statement (Member t) \<lparr>qregs = [q_reg, d_reg, a_reg], cregs = cs, data = xs\<rparr>
     = Inr \<lparr>qregs = [q_reg, d_reg, a_reg], cregs = cs,
            data = xs @ (case t of
                NoError \<Rightarrow> [IGate q, IGate d0, IGate d1]
              | XError1 \<Rightarrow> [XGate q, IGate d0, IGate d1]
              | XError2 \<Rightarrow> [IGate q, XGate d0, IGate d1]
              | XError3 \<Rightarrow> [IGate q, IGate d0, XGate d1]
              | XError12 \<Rightarrow> [XGate q, XGate d0, IGate d1]
              | XError13 \<Rightarrow> [XGate q, IGate d0, XGate d1]
              | XError23 \<Rightarrow> [IGate q, XGate d0, XGate d1]
              | ZError1 \<Rightarrow> [ZGate q, IGate d0, IGate d1]
              | ZError2 \<Rightarrow> [IGate q, ZGate d0, IGate d1]
              | YError1 \<Rightarrow> [YGate q, IGate d0, IGate d1]
              | YError2 \<Rightarrow> [IGate q, YGate d0, IGate d1])\<rparr>"
  by (cases t) (simp_all add: match_statement_def match_i_Member gate_defs append_gate)

lemma error_gates_Member:
  "error_gates (Member t) = (case t of
                NoError \<Rightarrow> [IGate q, IGate d0, IGate d1]
              | XError1 \<Rightarrow> [XGate q, IGate d0, IGate d1]
              | XError2 \<Rightarrow> [IGate q, XGate d0, IGate d1]
              | XError3 \<Rightarrow> [IGate q, IGate d0, XGate d1]
              | XError12 \<Rightarrow> [XGate q, XGate d0, IGate d1]
              | XError13 \<Rightarrow> [XGate q, IGate d0, XGate d1]
              | XError23 \<Rightarrow> [IGate q, XGate d0, XGate d1]
              | ZError1 \<Rightarrow> [ZGate q, IGate d0, IGate d1]
              | ZError2 \<Rightarrow> [IGate q, ZGate d0, IGate d1]
              | YError1 \<Rightarrow> [YGate q, IGate d0, IGate d1]
              | YError2 \<Rightarrow> [IGate q, YGate d0, IGate d1])"
  by (simp add: error_gates_def QuantumCircuit_def match_statement_Member)

lemma match_statement_error_gates:
  "match_statement (Member t) \<lparr>qregs = [q_reg, d_reg, a_reg], cregs = cs, data = xs\<rparr>
     = Inr \<lparr>qregs = [q_reg, d_reg, a_reg], cregs = cs, data = xs @ error_gates (Member t)\<rparr>"
  by (simp add: match_statement_Member error_gates_Member)

lemma match_statement_none: "match_i i = Inr [] \<Longrightarrow> match_statement i qc = Inr qc"
  by (simp add: match_statement_def)

lemma match_statement_raises: "match_i i = Inl e \<Longrightarrow> match_statement i qc = Inl e"
  by (simp add: match_statement_def)

text \<open>The whole of \<^verbatim>\<open>qcirc\<close>, for either value of \<^verbatim>\<open>measure_all\<close>.\<close>

lemma measure_all_qda:
  "qc_measure_all \<lparr>qregs = [q_reg, d_reg, a_reg], cregs = [], data = xs\<rparr>
     = Inr \<lparr>qregs = [q_reg, d_reg, a_reg], cregs = [(''meas'', 5)],
            data = xs @ [Barrier [q, d0, d1, a0, a1],
              Measure q (Clbit ''meas'' 0), Measure d0 (Clbit ''meas'' 1),
              Measure d1 (Clbit ''meas'' 2), Measure a0 (Clbit ''meas'' 3),
              Measure a1 (Clbit ''meas'' 4)]\<rparr>"
proof -
  have n: "length (qubits \<lparr>qregs = [q_reg, d_reg, a_reg], cregs = [], data = xs\<rparr>) = 5"
    by (simp add: qubits_qda)
  have u: "[0..<5] = [0, 1, 2, 3, 4::nat]"
    by (simp add: upt_rec)
  show ?thesis
    unfolding qc_measure_all_def n Let_def u
    by (simp add: qc_barrier_def qc_measure_def append_gate append_measure qubits_qda
        clbits_meas distinct_names)
qed

lemmas qcirc_simps = qcirc_def qcirc_body_def qcirc_new_def gate_defs qc_barrier_def
  qc_measure_def measure_all_qda QuantumCircuit_def append_gate append_measure qubits_qda
  clbits_c distinct_names

lemma qcirc_False:
  "qcirc (Member t) False =
     Inr \<lparr>qregs = [q_reg, d_reg, a_reg], cregs = [c_reg],
          data = [CXGate q d0, CXGate d0 d1, Barrier [q, d0, d1, a0, a1]] @ error_gates (Member t)
             @ [Barrier [q, d0, d1, a0, a1],
                CXGate q a0, CXGate d0 a0, CXGate q a1, CXGate d1 a1,
                Barrier [q, d0, d1, a0, a1], Measure a0 c0, Measure a1 c1]\<rparr>"
  by (simp add: qcirc_simps match_statement_error_gates)

lemma qcirc_True:
  "qcirc (Member t) True =
     Inr \<lparr>qregs = [q_reg, d_reg, a_reg], cregs = [(''meas'', 5)],
          data = [CXGate q d0, CXGate d0 d1, Barrier [q, d0, d1, a0, a1]] @ error_gates (Member t)
             @ [Barrier [q, d0, d1, a0, a1],
                CXGate q a0, CXGate d0 a0, CXGate q a1, CXGate d1 a1,
                Barrier [q, d0, d1, a0, a1], Barrier [q, d0, d1, a0, a1],
                Measure q (Clbit ''meas'' 0), Measure d0 (Clbit ''meas'' 1),
                Measure d1 (Clbit ''meas'' 2), Measure a0 (Clbit ''meas'' 3),
                Measure a1 (Clbit ''meas'' 4)]\<rparr>"
  by (simp add: qcirc_simps match_statement_error_gates)

lemma qcirc_no_clause_False:
  "match_i i = Inr [] \<Longrightarrow>
   qcirc i False =
     Inr \<lparr>qregs = [q_reg, d_reg, a_reg], cregs = [c_reg],
          data = [CXGate q d0, CXGate d0 d1, Barrier [q, d0, d1, a0, a1]]
             @ [Barrier [q, d0, d1, a0, a1],
                CXGate q a0, CXGate d0 a0, CXGate q a1, CXGate d1 a1,
                Barrier [q, d0, d1, a0, a1], Measure a0 c0, Measure a1 c1]\<rparr>"
  by (simp add: qcirc_simps match_statement_none)

lemma qcirc_no_clause_True:
  "match_i i = Inr [] \<Longrightarrow>
   qcirc i True =
     Inr \<lparr>qregs = [q_reg, d_reg, a_reg], cregs = [(''meas'', 5)],
          data = [CXGate q d0, CXGate d0 d1, Barrier [q, d0, d1, a0, a1]]
             @ [Barrier [q, d0, d1, a0, a1],
                CXGate q a0, CXGate d0 a0, CXGate q a1, CXGate d1 a1,
                Barrier [q, d0, d1, a0, a1], Barrier [q, d0, d1, a0, a1],
                Measure q (Clbit ''meas'' 0), Measure d0 (Clbit ''meas'' 1),
                Measure d1 (Clbit ''meas'' 2), Measure a0 (Clbit ''meas'' 3),
                Measure a1 (Clbit ''meas'' 4)]\<rparr>"
  by (simp add: qcirc_simps match_statement_none)

lemma qcirc_raises: "match_i i = Inl e \<Longrightarrow> qcirc i measure_all = Inl e"
  by (simp add: qcirc_simps match_statement_raises)

lemma qcirc_same_clause: "match_i i = match_i j \<Longrightarrow> qcirc i measure_all = qcirc j measure_all"
proof -
  assume "match_i i = match_i j"
  then have "match_statement i = match_statement j"
    by (simp add: match_statement_def fun_eq_iff)
  then show ?thesis
    by (simp add: qcirc_def qcirc_body_def)
qed



subsection \<open>Running the circuit\<close>

text \<open>Equal shots give a histogram with one entry, and its reversed key is the syndrome.\<close>

lemma fold_count_outcome_replicate:
  "fold count_outcome (replicate n k) [(k, m)] = [(k, m + n)]"
  by (induction n arbitrary: m) (simp_all add: count_outcome_def)

lemma histogram_replicate:
  "histogram (replicate n k) = (if n = 0 then [] else [(k, n)])"
proof (cases n)
  case 0
  then show ?thesis by (simp add: histogram_def)
next
  case (Suc m)
  then show ?thesis
    using fold_count_outcome_replicate [of m k 1]
    by (simp add: histogram_def count_outcome_def)
qed

lemma qcirc_sim_qsim:
  "measured_clbits qc \<noteq> [] \<Longrightarrow> qcirc_sim qsim qc = Inr [(outcome_key qc, 1024)]"
  by (simp add: qcirc_sim_def qsim_def histogram_replicate)

lemma counts_bit_reversed_single: "counts_bit_reversed [(k, n)] = Inr [(rev k, n)]"
  by (simp add: counts_bit_reversed_def keys_def)

lemma syndrome_of_single: "syndrome_of [(k, n)] = Inr (rev k)"
  by (simp add: syndrome_of_def counts_bit_reversed_single keys_def)

lemma scenario_qsim:
  "qcirc i m = Inr qc \<Longrightarrow> measured_clbits qc \<noteq> [] \<Longrightarrow>
   scenario qsim i m nb =
     Inr (nb\<lparr>nb_qc := Some qc, nb_counts := Some [(outcome_key qc, 1024)],
              nb_syndrome := Some (rev (outcome_key qc))\<rparr>)"
  by (simp add: scenario_def build_cell_def run_cell_def qcirc_sim_qsim syndrome_of_single)

text \<open>The outcome of each of the eleven circuits, without \<^verbatim>\<open>measure_all\<close> and with it.\<close>

lemma outcome_key_False:
  "outcome_key \<lparr>qregs = [q_reg, d_reg, a_reg], cregs = [c_reg], data = 
    [CXGate q d0, CXGate d0 d1, Barrier [q, d0, d1, a0, a1]] @ error_gates (Member t) @ [Barrier [q, d0, d1, a0, a1],
     CXGate q a0, CXGate d0 a0, CXGate q a1, CXGate d1 a1, Barrier [q, d0, d1, a0, a1], Measure a0 c0, Measure a1 c1]\<rparr>
   = (case t of NoError \<Rightarrow> ''00'' | XError1 \<Rightarrow> ''11'' | XError2 \<Rightarrow> ''01'' | XError3 \<Rightarrow> ''10''
       | XError12 \<Rightarrow> ''10'' | XError13 \<Rightarrow> ''01'' | XError23 \<Rightarrow> ''11''
       | ZError1 \<Rightarrow> ''00'' | ZError2 \<Rightarrow> ''00'' | YError1 \<Rightarrow> ''11'' | YError2 \<Rightarrow> ''01'')"
  by (cases t) (simp_all add: outcome_key_def run_shot_def error_gates_Member initial_state_def
      register_key_def register_bits_def bit_char_def names_defs upt_rec)

lemma outcome_key_True:
  "outcome_key \<lparr>qregs = [q_reg, d_reg, a_reg], cregs = [(''meas'', 5)], data = 
    [CXGate q d0, CXGate d0 d1, Barrier [q, d0, d1, a0, a1]] @ error_gates (Member t) @ [Barrier [q, d0, d1, a0, a1],
     CXGate q a0, CXGate d0 a0, CXGate q a1, CXGate d1 a1, Barrier [q, d0, d1, a0, a1], Barrier [q, d0, d1, a0, a1],
     Measure q (Clbit ''meas'' 0), Measure d0 (Clbit ''meas'' 1), Measure d1 (Clbit ''meas'' 2),
     Measure a0 (Clbit ''meas'' 3), Measure a1 (Clbit ''meas'' 4)]\<rparr>
   = (case t of NoError \<Rightarrow> ''00000'' | XError1 \<Rightarrow> ''11001'' | XError2 \<Rightarrow> ''01010'' | XError3 \<Rightarrow> ''10100''
       | XError12 \<Rightarrow> ''10011'' | XError13 \<Rightarrow> ''01101'' | XError23 \<Rightarrow> ''11110''
       | ZError1 \<Rightarrow> ''00000'' | ZError2 \<Rightarrow> ''00000'' | YError1 \<Rightarrow> ''11001'' | YError2 \<Rightarrow> ''01010'')"
  by (cases t) (simp_all add: outcome_key_def run_shot_def error_gates_Member initial_state_def
      register_key_def register_bits_def bit_char_def names_defs upt_rec)

text \<open>The circuits of the eleven tags measure every classical bit they have.\<close>

lemma measured_clbits_qcirc:
  assumes "qcirc (Member t) m = Inr qc"
  shows "measured_clbits qc = clbits qc"
    and "clbits qc = (if m then map (Clbit ''meas'') [0, 1, 2, 3, 4] else [c0, c1])"
proof -
  have g: "concat (map instruction_clbits (error_gates (Member t))) = []"
    by (cases t) (simp_all add: error_gates_Member)
  from assms show "clbits qc = (if m then map (Clbit ''meas'') [0, 1, 2, 3, 4] else [c0, c1])"
    by (cases m) (auto simp add: qcirc_False qcirc_True clbits_c clbits_meas)
  from assms show "measured_clbits qc = clbits qc"
    by (cases m)
      (auto simp add: qcirc_False qcirc_True clbits_c clbits_meas measured_clbits_def g)
qed

lemma measured_clbits_nonempty:
  "qcirc (Member t) m = Inr qc \<Longrightarrow> measured_clbits qc \<noteq> []"
  by (simp add: measured_clbits_qcirc)


lemma outcome_key_qcirc_False:
  assumes "qcirc (Member t) False = Inr qc"
  shows "outcome_key qc =
     (case t of NoError \<Rightarrow> ''00'' | XError1 \<Rightarrow> ''11'' | XError2 \<Rightarrow> ''01'' | XError3 \<Rightarrow> ''10''
       | XError12 \<Rightarrow> ''10'' | XError13 \<Rightarrow> ''01'' | XError23 \<Rightarrow> ''11''
       | ZError1 \<Rightarrow> ''00'' | ZError2 \<Rightarrow> ''00'' | YError1 \<Rightarrow> ''11'' | YError2 \<Rightarrow> ''01'')"
proof -
  from assms have "Inr qc = qcirc (Member t) False" by simp
  then show ?thesis
    unfolding qcirc_False by (simp only: sum.inject outcome_key_False)
qed

lemma outcome_key_qcirc_True:
  assumes "qcirc (Member t) True = Inr qc"
  shows "outcome_key qc =
     (case t of NoError \<Rightarrow> ''00000'' | XError1 \<Rightarrow> ''11001'' | XError2 \<Rightarrow> ''01010'' | XError3 \<Rightarrow> ''10100''
       | XError12 \<Rightarrow> ''10011'' | XError13 \<Rightarrow> ''01101'' | XError23 \<Rightarrow> ''11110''
       | ZError1 \<Rightarrow> ''00000'' | ZError2 \<Rightarrow> ''00000'' | YError1 \<Rightarrow> ''11001'' | YError2 \<Rightarrow> ''01010'')"
proof -
  from assms have "Inr qc = qcirc (Member t) True" by simp
  then show ?thesis
    unfolding qcirc_True by (simp only: sum.inject outcome_key_True)
qed

lemma scenario_False_key:
  "\<exists>nb'. scenario qsim (Member t) False nb = Inr nb'
     \<and> nb_counts nb' = Some [(case t of NoError \<Rightarrow> ''00'' | XError1 \<Rightarrow> ''11'' | XError2 \<Rightarrow> ''01'' | XError3 \<Rightarrow> ''10''
       | XError12 \<Rightarrow> ''10'' | XError13 \<Rightarrow> ''01'' | XError23 \<Rightarrow> ''11''
       | ZError1 \<Rightarrow> ''00'' | ZError2 \<Rightarrow> ''00'' | YError1 \<Rightarrow> ''11'' | YError2 \<Rightarrow> ''01'', 1024)]
     \<and> nb_syndrome nb' = Some (case t of NoError \<Rightarrow> ''00'' | XError1 \<Rightarrow> ''11'' | XError2 \<Rightarrow> ''10'' | XError3 \<Rightarrow> ''01''
       | XError12 \<Rightarrow> ''01'' | XError13 \<Rightarrow> ''10'' | XError23 \<Rightarrow> ''11''
       | ZError1 \<Rightarrow> ''00'' | ZError2 \<Rightarrow> ''00'' | YError1 \<Rightarrow> ''11'' | YError2 \<Rightarrow> ''10'')"
proof -
  obtain qc where qc: "qcirc (Member t) False = Inr qc"
    by (simp add: qcirc_False)
  then have c: "measured_clbits qc \<noteq> []"
    by (rule measured_clbits_nonempty)
  have r: "rev (outcome_key qc) = (case t of NoError \<Rightarrow> ''00'' | XError1 \<Rightarrow> ''11'' | XError2 \<Rightarrow> ''10'' | XError3 \<Rightarrow> ''01''
       | XError12 \<Rightarrow> ''01'' | XError13 \<Rightarrow> ''10'' | XError23 \<Rightarrow> ''11''
       | ZError1 \<Rightarrow> ''00'' | ZError2 \<Rightarrow> ''00'' | YError1 \<Rightarrow> ''11'' | YError2 \<Rightarrow> ''10'')"
    unfolding outcome_key_qcirc_False [OF qc] by (simp split: ErrorSims.split)
  note r = r [unfolded outcome_key_qcirc_False [OF qc]]
  show ?thesis
    unfolding scenario_qsim [OF qc c] outcome_key_qcirc_False [OF qc] r by simp
qed

lemma scenario_True_key:
  "\<exists>nb'. scenario qsim (Member t) True nb = Inr nb'
     \<and> nb_counts nb' = Some [(case t of NoError \<Rightarrow> ''00000'' | XError1 \<Rightarrow> ''11001'' | XError2 \<Rightarrow> ''01010'' | XError3 \<Rightarrow> ''10100''
       | XError12 \<Rightarrow> ''10011'' | XError13 \<Rightarrow> ''01101'' | XError23 \<Rightarrow> ''11110''
       | ZError1 \<Rightarrow> ''00000'' | ZError2 \<Rightarrow> ''00000'' | YError1 \<Rightarrow> ''11001'' | YError2 \<Rightarrow> ''01010'', 1024)]
     \<and> nb_syndrome nb' = Some (case t of NoError \<Rightarrow> ''00000'' | XError1 \<Rightarrow> ''10011'' | XError2 \<Rightarrow> ''01010'' | XError3 \<Rightarrow> ''00101''
       | XError12 \<Rightarrow> ''11001'' | XError13 \<Rightarrow> ''10110'' | XError23 \<Rightarrow> ''01111''
       | ZError1 \<Rightarrow> ''00000'' | ZError2 \<Rightarrow> ''00000'' | YError1 \<Rightarrow> ''10011'' | YError2 \<Rightarrow> ''01010'')"
proof -
  obtain qc where qc: "qcirc (Member t) True = Inr qc"
    by (simp add: qcirc_True)
  then have c: "measured_clbits qc \<noteq> []"
    by (rule measured_clbits_nonempty)
  have r: "rev (outcome_key qc) = (case t of NoError \<Rightarrow> ''00000'' | XError1 \<Rightarrow> ''10011'' | XError2 \<Rightarrow> ''01010'' | XError3 \<Rightarrow> ''00101''
       | XError12 \<Rightarrow> ''11001'' | XError13 \<Rightarrow> ''10110'' | XError23 \<Rightarrow> ''01111''
       | ZError1 \<Rightarrow> ''00000'' | ZError2 \<Rightarrow> ''00000'' | YError1 \<Rightarrow> ''10011'' | YError2 \<Rightarrow> ''01010'')"
    unfolding outcome_key_qcirc_True [OF qc] by (simp split: ErrorSims.split)
  note r = r [unfolded outcome_key_qcirc_True [OF qc]]
  show ?thesis
    unfolding scenario_qsim [OF qc c] outcome_key_qcirc_True [OF qc] r by simp
qed

lemma length_outcome_key:
  "cregs qc = [r] \<Longrightarrow> length (outcome_key qc) = length (clbits qc)"
  by (simp add: outcome_key_def register_key_def clbits_def)

subsection \<open>Re-keying the histogram\<close>

text \<open>
  Every round of the loop writes under the same key, so after the first round the
  result has one entry, and the last round decides its value.
\<close>

lemma dict_get_map_of:
  "dict_get d k = (case map_of d k of None \<Rightarrow> Inl KeyError | Some v \<Rightarrow> Inr v)"
  by (induction d) auto

lemma dict_get_last:
  "d \<noteq> [] \<Longrightarrow> distinct (keys d) \<Longrightarrow> dict_get d (fst (last d)) = Inr (snd (last d))"
proof -
  assume "d \<noteq> []" and "distinct (keys d)"
  then have "map_of d (fst (last d)) = Some (snd (last d))"
    by (simp add: keys_def)
  then show ?thesis by (simp add: dict_get_map_of)
qed

lemma loop_single:
  "set bs \<subseteq> set (keys ((k0, v0) # d)) \<Longrightarrow> bs \<noteq> [] \<Longrightarrow> a = [] \<or> (\<exists>v. a = [(rev k0, v)]) \<Longrightarrow>
   \<exists>v. dict_get ((k0, v0) # d) (last bs) = Inr v \<and>
       counts_bit_reversed_loop ((k0, v0) # d) bs a = Inr [(rev k0, v)]"
proof (induction bs arbitrary: a)
  case Nil
  then show ?case by simp
next
  case (Cons b bs)
  from Cons.prems(1) have "b \<in> set (keys ((k0, v0) # d))" by simp
  then obtain v where v: "dict_get ((k0, v0) # d) b = Inr v"
    by (cases "map_of ((k0, v0) # d) b") (auto simp add: dict_get_map_of keys_def map_of_eq_None_iff simp del: map_of.simps)
  from Cons.prems(3) have a': "dict_set a (rev k0) v = [(rev k0, v)]" by auto
  show ?case
  proof (cases "bs = []")
    case True
    then show ?thesis using v a' by (simp add: keys_def)
  next
    case False
    have "set bs \<subseteq> set (keys ((k0, v0) # d))" using Cons.prems(1) by simp
    from Cons.IH [OF this False, of "[(rev k0, v)]"]
    show ?thesis using v a' False by (simp add: keys_def)
  qed
qed

section \<open>The claims\<close>

text \<open>
  C1: every circuit built by \<^verbatim>\<open>qcirc\<close> with the tag \<^verbatim>\<open>NoError\<close>, \<^verbatim>\<open>XError1\<close>, \<^verbatim>\<open>XError2\<close> or
  \<^verbatim>\<open>XError3\<close> and \<^verbatim>\<open>measure_all\<close> left \<^verbatim>\<open>False\<close> gives the same outcome in each of the 1024
  shots, and the syndrome read after \<^verbatim>\<open>counts_bit_reversed\<close>, in the order \<open>a0 a1\<close>, is
  \<open>00\<close> for no error, \<open>11\<close> for a bit flip on qubit 1, \<open>10\<close> on qubit 2 and \<open>01\<close> on
  qubit 3. The scenario may start from any state \<open>nb\<close> of the notebook.
\<close>

theorem single_bit_flip_syndromes:
  "(\<exists>nb'. scenario qsim (Member NoError) False nb = Inr nb'
      \<and> nb_counts nb' = Some [(''00'', 1024)] \<and> nb_syndrome nb' = Some ''00'')
   \<and> (\<exists>nb'. scenario qsim (Member XError1) False nb = Inr nb'
      \<and> nb_counts nb' = Some [(''11'', 1024)] \<and> nb_syndrome nb' = Some ''11'')
   \<and> (\<exists>nb'. scenario qsim (Member XError2) False nb = Inr nb'
      \<and> nb_counts nb' = Some [(''01'', 1024)] \<and> nb_syndrome nb' = Some ''10'')
   \<and> (\<exists>nb'. scenario qsim (Member XError3) False nb = Inr nb'
      \<and> nb_counts nb' = Some [(''10'', 1024)] \<and> nb_syndrome nb' = Some ''01'')"
  using scenario_False_key [of NoError nb] scenario_False_key [of XError1 nb]
    scenario_False_key [of XError2 nb] scenario_False_key [of XError3 nb]
  by simp

text \<open>
  C2: with a double bit-flip tag the measured ancilla syndrome is that of the single
  error on the remaining qubit: \<^verbatim>\<open>XError12\<close> gives \<open>01\<close> as \<^verbatim>\<open>XError3\<close> does, \<^verbatim>\<open>XError13\<close>
  gives \<open>10\<close> as \<^verbatim>\<open>XError2\<close> does and \<^verbatim>\<open>XError23\<close> gives \<open>11\<close> as \<^verbatim>\<open>XError1\<close> does. With
  \<^verbatim>\<open>measure_all\<close> the reversed key is \<open>q d0 d1 a0 a1\<close>, and the ancilla bits are what is
  left after its first three characters.
\<close>

theorem double_bit_flip_syndromes:
  "(\<exists>nb1 nb2. scenario qsim (Member XError12) False nb = Inr nb1
       \<and> scenario qsim (Member XError3) False nb = Inr nb2
       \<and> nb_syndrome nb1 = Some ''01'' \<and> nb_syndrome nb2 = nb_syndrome nb1)
   \<and> (\<exists>nb1 nb2. scenario qsim (Member XError13) False nb = Inr nb1
       \<and> scenario qsim (Member XError2) False nb = Inr nb2
       \<and> nb_syndrome nb1 = Some ''10'' \<and> nb_syndrome nb2 = nb_syndrome nb1)
   \<and> (\<exists>nb1 nb2. scenario qsim (Member XError23) False nb = Inr nb1
       \<and> scenario qsim (Member XError1) False nb = Inr nb2
       \<and> nb_syndrome nb1 = Some ''11'' \<and> nb_syndrome nb2 = nb_syndrome nb1)
   \<and> (\<exists>nb1 nb2. scenario qsim (Member XError12) True nb = Inr nb1
       \<and> scenario qsim (Member XError3) True nb = Inr nb2
       \<and> map_option (drop 3) (nb_syndrome nb1) = Some ''01''
       \<and> map_option (drop 3) (nb_syndrome nb2) = Some ''01'')
   \<and> (\<exists>nb1 nb2. scenario qsim (Member XError13) True nb = Inr nb1
       \<and> scenario qsim (Member XError2) True nb = Inr nb2
       \<and> map_option (drop 3) (nb_syndrome nb1) = Some ''10''
       \<and> map_option (drop 3) (nb_syndrome nb2) = Some ''10'')
   \<and> (\<exists>nb1 nb2. scenario qsim (Member XError23) True nb = Inr nb1
       \<and> scenario qsim (Member XError1) True nb = Inr nb2
       \<and> map_option (drop 3) (nb_syndrome nb1) = Some ''11''
       \<and> map_option (drop 3) (nb_syndrome nb2) = Some ''11'')"
proof -
  have f: "\<exists>nb1 nb2. scenario qsim (Member s) False nb = Inr nb1
       \<and> scenario qsim (Member t) False nb = Inr nb2
       \<and> nb_syndrome nb1 = Some k \<and> nb_syndrome nb2 = nb_syndrome nb1"
    if "(s, t, k) \<in> {(XError12, XError3, ''01''), (XError13, XError2, ''10''), (XError23, XError1, ''11'')}"
    for s t k
    using that scenario_False_key [of s nb] scenario_False_key [of t nb] by auto
  have t: "\<exists>nb1 nb2. scenario qsim (Member s) True nb = Inr nb1
       \<and> scenario qsim (Member t) True nb = Inr nb2
       \<and> map_option (drop 3) (nb_syndrome nb1) = Some k
       \<and> map_option (drop 3) (nb_syndrome nb2) = Some k"
    if "(s, t, k) \<in> {(XError12, XError3, ''01''), (XError13, XError2, ''10''), (XError23, XError1, ''11'')}"
    for s t k
    using that scenario_True_key [of s nb] scenario_True_key [of t nb] by auto
  show ?thesis
    by (intro conjI f t) simp_all
qed

text \<open>
  C3: with a phase-error tag the two ancilla bits are \<open>00\<close> (\<^verbatim>\<open>ZError1\<close>, \<^verbatim>\<open>ZError2\<close>: the
  error is not detected), and with a Y-error tag they are those of the bit flip on the
  same qubit, \<open>11\<close> for \<^verbatim>\<open>YError1\<close> as for \<^verbatim>\<open>XError1\<close> and \<open>10\<close> for \<^verbatim>\<open>YError2\<close> as for
  \<^verbatim>\<open>XError2\<close>; both without \<^verbatim>\<open>measure_all\<close> and with it, as the notebook runs these four
  scenarios.
\<close>

theorem phase_and_y_error_syndromes:
  "(\<exists>nb'. scenario qsim (Member ZError1) False nb = Inr nb' \<and> nb_syndrome nb' = Some ''00'')
   \<and> (\<exists>nb'. scenario qsim (Member ZError2) False nb = Inr nb' \<and> nb_syndrome nb' = Some ''00'')
   \<and> (\<exists>nb1 nb2. scenario qsim (Member YError1) False nb = Inr nb1
        \<and> scenario qsim (Member XError1) False nb = Inr nb2
        \<and> nb_syndrome nb1 = Some ''11'' \<and> nb_syndrome nb2 = nb_syndrome nb1)
   \<and> (\<exists>nb1 nb2. scenario qsim (Member YError2) False nb = Inr nb1
        \<and> scenario qsim (Member XError2) False nb = Inr nb2
        \<and> nb_syndrome nb1 = Some ''10'' \<and> nb_syndrome nb2 = nb_syndrome nb1)
   \<and> (\<exists>nb'. scenario qsim (Member ZError1) True nb = Inr nb'
        \<and> nb_syndrome nb' = Some ''00000'' \<and> map_option (drop 3) (nb_syndrome nb') = Some ''00'')
   \<and> (\<exists>nb'. scenario qsim (Member ZError2) True nb = Inr nb'
        \<and> nb_syndrome nb' = Some ''00000'' \<and> map_option (drop 3) (nb_syndrome nb') = Some ''00'')
   \<and> (\<exists>nb1 nb2. scenario qsim (Member YError1) True nb = Inr nb1
        \<and> scenario qsim (Member XError1) True nb = Inr nb2
        \<and> nb_syndrome nb1 = Some ''10011'' \<and> map_option (drop 3) (nb_syndrome nb1) = Some ''11''
        \<and> nb_syndrome nb2 = nb_syndrome nb1)
   \<and> (\<exists>nb1 nb2. scenario qsim (Member YError2) True nb = Inr nb1
        \<and> scenario qsim (Member XError2) True nb = Inr nb2
        \<and> nb_syndrome nb1 = Some ''01010'' \<and> map_option (drop 3) (nb_syndrome nb1) = Some ''10''
        \<and> nb_syndrome nb2 = nb_syndrome nb1)"
proof -
  have z: "\<exists>nb'. scenario qsim (Member t) False nb = Inr nb' \<and> nb_syndrome nb' = Some ''00''"
    if "t \<in> {ZError1, ZError2}" for t
    using that scenario_False_key [of t nb] by auto
  have y: "\<exists>nb1 nb2. scenario qsim (Member s) False nb = Inr nb1
        \<and> scenario qsim (Member t) False nb = Inr nb2
        \<and> nb_syndrome nb1 = Some k \<and> nb_syndrome nb2 = nb_syndrome nb1"
    if "(s, t, k) \<in> {(YError1, XError1, ''11''), (YError2, XError2, ''10'')}" for s t k
    using that scenario_False_key [of s nb] scenario_False_key [of t nb] by auto
  have zt: "\<exists>nb'. scenario qsim (Member t) True nb = Inr nb'
        \<and> nb_syndrome nb' = Some ''00000'' \<and> map_option (drop 3) (nb_syndrome nb') = Some ''00''"
    if "t \<in> {ZError1, ZError2}" for t
    using that scenario_True_key [of t nb] by auto
  have yt: "\<exists>nb1 nb2. scenario qsim (Member s) True nb = Inr nb1
        \<and> scenario qsim (Member t) True nb = Inr nb2
        \<and> nb_syndrome nb1 = Some k \<and> map_option (drop 3) (nb_syndrome nb1) = Some (drop 3 k)
        \<and> nb_syndrome nb2 = nb_syndrome nb1"
    if "(s, t, k) \<in> {(YError1, XError1, ''10011''), (YError2, XError2, ''01010'')}" for s t k
    using that scenario_True_key [of s nb] scenario_True_key [of t nb] by auto
  show ?thesis
    using z [of ZError1] z [of ZError2] y [of YError1 XError1 "''11''"] y [of YError2 XError2 "''10''"]
      zt [of ZError1] zt [of ZError2] yt [of YError1 XError1 "''10011''"] yt [of YError2 XError2 "''01010''"]
    by simp
qed

text \<open>
  C4: for every scenario tag \<^verbatim>\<open>qcirc\<close> appends the same sequence in the same order: the
  encoding (a controlled NOT from \<open>q\<close> to \<open>d0\<close>, then from \<open>d0\<close> to \<open>d1\<close>), the three
  gates that the tag selects, one on each of \<open>q\<close>, \<open>d0\<close> and \<open>d1\<close>, the two parity
  checks (controlled NOTs from \<open>q\<close> and \<open>d0\<close> onto \<open>a0\<close>, from \<open>q\<close> and \<open>d1\<close> onto
  \<open>a1\<close>), and the measurement, which covers the two ancillas; barriers separate the
  stages. The gates depend on the tag alone.
\<close>

theorem qcirc_fixed_sequence:
  "\<exists>e1 e2 e3.
     e1 \<in> {IGate q, XGate q, YGate q, ZGate q}
     \<and> e2 \<in> {IGate d0, XGate d0, YGate d0, ZGate d0}
     \<and> e3 \<in> {IGate d1, XGate d1, YGate d1, ZGate d1}
     \<and> match_i (Member t)
         = Inr [append_instruction e1, append_instruction e2, append_instruction e3]
     \<and> qcirc (Member t) measure_all =
         Inr \<lparr>qregs = [q_reg, d_reg, a_reg],
              cregs = (if measure_all then [(''meas'', 5)] else [c_reg]),
              data =
                [CXGate q d0, CXGate d0 d1, Barrier [q, d0, d1, a0, a1],
                 e1, e2, e3, Barrier [q, d0, d1, a0, a1],
                 CXGate q a0, CXGate d0 a0, CXGate q a1, CXGate d1 a1,
                 Barrier [q, d0, d1, a0, a1]]
                @ (if measure_all
                   then [Barrier [q, d0, d1, a0, a1],
                         Measure q (Clbit ''meas'' 0), Measure d0 (Clbit ''meas'' 1),
                         Measure d1 (Clbit ''meas'' 2), Measure a0 (Clbit ''meas'' 3),
                         Measure a1 (Clbit ''meas'' 4)]
                   else [Measure a0 c0, Measure a1 c1])\<rparr>"
proof -
  obtain e1 e2 e3 where e: "error_gates (Member t) = [e1, e2, e3]"
    and m: "match_i (Member t)
         = Inr [append_instruction e1, append_instruction e2, append_instruction e3]"
    and s: "e1 \<in> {IGate q, XGate q, YGate q, ZGate q}"
      "e2 \<in> {IGate d0, XGate d0, YGate d0, ZGate d0}"
      "e3 \<in> {IGate d1, XGate d1, YGate d1, ZGate d1}"
    by (cases t) (simp_all add: error_gates_Member match_i_Member gate_defs)
  show ?thesis
    using m s by (cases measure_all) (auto simp add: qcirc_False qcirc_True e)
qed

theorem qcirc_fixed_sequence_witness:
  "qcirc (Member YError2) False =
         Inr \<lparr>qregs = [q_reg, d_reg, a_reg], cregs = [c_reg],
              data =
                [CXGate q d0, CXGate d0 d1, Barrier [q, d0, d1, a0, a1],
                 IGate q, YGate d0, IGate d1, Barrier [q, d0, d1, a0, a1],
                 CXGate q a0, CXGate d0 a0, CXGate q a1, CXGate d1 a1,
                 Barrier [q, d0, d1, a0, a1], Measure a0 c0, Measure a1 c1]\<rparr>"
proof -
  from qcirc_fixed_sequence [of YError2 False]
  obtain e1 e2 e3 where c: "qcirc (Member YError2) False =
         Inr \<lparr>qregs = [q_reg, d_reg, a_reg], cregs = [c_reg],
              data =
                [CXGate q d0, CXGate d0 d1, Barrier [q, d0, d1, a0, a1],
                 e1, e2, e3, Barrier [q, d0, d1, a0, a1],
                 CXGate q a0, CXGate d0 a0, CXGate q a1, CXGate d1 a1,
                 Barrier [q, d0, d1, a0, a1], Measure a0 c0, Measure a1 c1]\<rparr>"
    by auto
  have "error_gates (Member YError2) = [e1, e2, e3]"
    using c by (simp add: qcirc_False)
  then have "e1 = IGate q" "e2 = YGate d0" "e3 = IGate d1"
    by (simp_all add: error_gates_Member)
  with c show ?thesis by simp
qed

text \<open>
  C5: every key of the histogram that \<^verbatim>\<open>qcirc_sim\<close> returns for the circuit of a scenario
  is as long as the list of the classical bits that the measurements of the circuit
  write: 2 without \<^verbatim>\<open>measure_all\<close> (the ancillas into \<open>c0\<close> and \<open>c1\<close>), 5 with it (every
  qubit into its bit of \<^verbatim>\<open>meas\<close>). No bit is written twice, and the circuit has no
  classical bit that is not measured.
\<close>

theorem counts_key_length:
  "\<exists>qc counts. qcirc (Member t) measure_all = Inr qc \<and> qcirc_sim qsim qc = Inr counts
     \<and> counts \<noteq> []
     \<and> (\<forall>k \<in> set (keys counts). length k = length (measured_clbits qc))
     \<and> distinct (measured_clbits qc)
     \<and> measured_clbits qc
         = (if measure_all then map (Clbit ''meas'') [0, 1, 2, 3, 4] else [c0, c1])
     \<and> set (clbits qc) = set (measured_clbits qc)
     \<and> length (measured_clbits qc) = (if measure_all then 5 else 2)"
proof -
  obtain qc where qc: "qcirc (Member t) measure_all = Inr qc"
    by (cases measure_all) (simp_all add: qcirc_False qcirc_True)
  note m = measured_clbits_qcirc [OF qc]
  have ne: "measured_clbits qc \<noteq> []"
    using qc by (rule measured_clbits_nonempty)
  have "\<exists>r. cregs qc = [r]"
    using qc by (cases measure_all) (auto simp add: qcirc_False qcirc_True)
  then have l: "length (outcome_key qc) = length (measured_clbits qc)"
    by (auto simp add: length_outcome_key m(1))
  have d: "distinct (measured_clbits qc)"
    by (simp add: m distinct_names)
  from qc qcirc_sim_qsim [OF ne] l d m show ?thesis
    by (simp add: keys_def)
qed

theorem counts_key_length_witness:
  "\<exists>qc counts. qcirc (Member ZError1) True = Inr qc \<and> qcirc_sim qsim qc = Inr counts
     \<and> keys counts = [''00000'']
     \<and> measured_clbits qc = map (Clbit ''meas'') [0, 1, 2, 3, 4]
     \<and> length ''00000'' = length (measured_clbits qc)"
proof -
  from counts_key_length [of ZError1 True]
  obtain qc counts where qc: "qcirc (Member ZError1) True = Inr qc"
    and counts: "qcirc_sim qsim qc = Inr counts"
    and len: "\<forall>k \<in> set (keys counts). length k = length (measured_clbits qc)"
    and m: "measured_clbits qc = map (Clbit ''meas'') [0, 1, 2, 3, 4]"
    by auto
  have ne: "measured_clbits qc \<noteq> []" using m by simp
  have "counts = [(''00000'', 1024)]"
    using counts qcirc_sim_qsim [OF ne] outcome_key_qcirc_True [OF qc] by simp
  then have "keys counts = [''00000'']" by (simp add: keys_def)
  with qc counts len m show ?thesis by auto
qed

text \<open>
  C6, as stated (an input that is not one of the eleven members makes \<^verbatim>\<open>qcirc\<close> fail
  with an error of the library), does not hold: for the integer 11 no clause of the
  \<^verbatim>\<open>match\<close> statement applies, nothing is raised and a circuit is returned.
\<close>

theorem qcirc_unsupported_tag_counterexample:
  "qcirc (PyInt 11) False =
     Inr \<lparr>qregs = [q_reg, d_reg, a_reg], cregs = [c_reg],
          data =
            [CXGate q d0, CXGate d0 d1, Barrier [q, d0, d1, a0, a1],
             Barrier [q, d0, d1, a0, a1],
             CXGate q a0, CXGate d0 a0, CXGate q a1, CXGate d1 a1,
             Barrier [q, d0, d1, a0, a1], Measure a0 c0, Measure a1 c1]\<rparr>"
  by (simp add: qcirc_no_clause_False match_i_other)

text \<open>
  C6, amended: the \<^verbatim>\<open>match\<close> statement compares the input with the eleven members by
  \<^verbatim>\<open>==\<close>, in the order of the source. An input that compares unequal to all of them (an
  integer, a string, \<^verbatim>\<open>None\<close>) runs no clause and nothing is raised: \<^verbatim>\<open>qcirc\<close> returns the
  circuit with the encoding, the parity checks and the measurement, and no
  error-injection gate. An input whose comparison raises before one answers true makes
  \<^verbatim>\<open>qcirc\<close> raise that exception, unchanged. An input that compares equal to a member,
  and unequal to the members before it, gets the circuit of that member.
\<close>

theorem qcirc_unsupported_tag:
  "((\<forall>t. py_eq i t = Inr False) \<longrightarrow>
      match_i i = Inr []
      \<and> qcirc i measure_all =
          Inr \<lparr>qregs = [q_reg, d_reg, a_reg],
               cregs = (if measure_all then [(''meas'', 5)] else [c_reg]),
               data =
                 [CXGate q d0, CXGate d0 d1, Barrier [q, d0, d1, a0, a1],
                  Barrier [q, d0, d1, a0, a1],
                  CXGate q a0, CXGate d0 a0, CXGate q a1, CXGate d1 a1,
                  Barrier [q, d0, d1, a0, a1]]
                 @ (if measure_all
                    then [Barrier [q, d0, d1, a0, a1],
                          Measure q (Clbit ''meas'' 0), Measure d0 (Clbit ''meas'' 1),
                          Measure d1 (Clbit ''meas'' 2), Measure a0 (Clbit ''meas'' 3),
                          Measure a1 (Clbit ''meas'' 4)]
                    else [Measure a0 c0, Measure a1 c1])\<rparr>)
   \<and> (\<forall>pre t post e.
        map fst case_clauses = pre @ t # post
        \<and> (\<forall>s \<in> set pre. py_eq i s = Inr False) \<and> py_eq i t = Inl e
        \<longrightarrow> qcirc i measure_all = Inl e)
   \<and> (\<forall>pre t post.
        map fst case_clauses = pre @ t # post
        \<and> (\<forall>s \<in> set pre. py_eq i s = Inr False) \<and> py_eq i t = Inr True
        \<longrightarrow> qcirc i measure_all = qcirc (Member t) measure_all)
   \<and> map fst case_clauses =
       [NoError, XError1, XError2, XError3, XError12, XError13, XError23,
        ZError1, ZError2, YError1, YError2]"
proof (intro conjI impI allI)
  assume "\<forall>t. py_eq i t = Inr False"
  then show "match_i i = Inr []" by (rule match_i_other)
  then show "qcirc i measure_all =
          Inr \<lparr>qregs = [q_reg, d_reg, a_reg],
               cregs = (if measure_all then [(''meas'', 5)] else [c_reg]),
               data =
                 [CXGate q d0, CXGate d0 d1, Barrier [q, d0, d1, a0, a1],
                  Barrier [q, d0, d1, a0, a1],
                  CXGate q a0, CXGate d0 a0, CXGate q a1, CXGate d1 a1,
                  Barrier [q, d0, d1, a0, a1]]
                 @ (if measure_all
                    then [Barrier [q, d0, d1, a0, a1],
                          Measure q (Clbit ''meas'' 0), Measure d0 (Clbit ''meas'' 1),
                          Measure d1 (Clbit ''meas'' 2), Measure a0 (Clbit ''meas'' 3),
                          Measure a1 (Clbit ''meas'' 4)]
                    else [Measure a0 c0, Measure a1 c1])\<rparr>"
    by (cases measure_all) (simp_all add: qcirc_no_clause_False qcirc_no_clause_True)
next
  fix pre t post e
  assume "map fst case_clauses = pre @ t # post
        \<and> (\<forall>s \<in> set pre. py_eq i s = Inr False) \<and> py_eq i t = Inl e"
  then have 1: "map fst case_clauses = pre @ t # post"
    and 2: "\<forall>s \<in> set pre. py_eq i s = Inr False" and 3: "py_eq i t = Inl e"
    by blast+
  have "match_i i = Inl e"
    unfolding match_i_def by (rule match_clauses_raises [OF 1 2 3])
  then show "qcirc i measure_all = Inl e" by (rule qcirc_raises)
next
  fix pre t post
  assume "map fst case_clauses = pre @ t # post
        \<and> (\<forall>s \<in> set pre. py_eq i s = Inr False) \<and> py_eq i t = Inr True"
  then have 1: "map fst case_clauses = pre @ t # post"
    and 2: "\<forall>s \<in> set pre. py_eq i s = Inr False" and 3: "py_eq i t = Inr True"
    by blast+
  have "match_i i = match_i (Member t)"
    unfolding match_i_def by (rule match_clauses_equal [OF 1 2 3 distinct_case_clauses])
  then show "qcirc i measure_all = qcirc (Member t) measure_all" by (rule qcirc_same_clause)
next
  show "map fst case_clauses =
       [NoError, XError1, XError2, XError3, XError12, XError13, XError23,
        ZError1, ZError2, YError1, YError2]"
    by (simp add: case_clauses_def)
qed

theorem qcirc_unsupported_tag_witness:
  "((\<forall>t. py_eq PyNone t = Inr False)
    \<and> qcirc PyNone True =
         Inr \<lparr>qregs = [q_reg, d_reg, a_reg], cregs = [(''meas'', 5)],
              data =
                [CXGate q d0, CXGate d0 d1, Barrier [q, d0, d1, a0, a1],
                 Barrier [q, d0, d1, a0, a1],
                 CXGate q a0, CXGate d0 a0, CXGate q a1, CXGate d1 a1,
                 Barrier [q, d0, d1, a0, a1], Barrier [q, d0, d1, a0, a1],
                 Measure q (Clbit ''meas'' 0), Measure d0 (Clbit ''meas'' 1),
                 Measure d1 (Clbit ''meas'' 2), Measure a0 (Clbit ''meas'' 3),
                 Measure a1 (Clbit ''meas'' 4)]\<rparr>)
   \<and> (map fst case_clauses
         = [NoError] @ XError1 # [XError2, XError3, XError12, XError13, XError23,
             ZError1, ZError2, YError1, YError2]
      \<and> py_eq (PyObject (\<lambda>t. if t = NoError then Inr False else Inl (OtherError ''eq'')))
           NoError = Inr False
      \<and> py_eq (PyObject (\<lambda>t. if t = NoError then Inr False else Inl (OtherError ''eq'')))
           XError1 = Inl (OtherError ''eq'')
      \<and> qcirc (PyObject (\<lambda>t. if t = NoError then Inr False else Inl (OtherError ''eq'')))
           False = Inl (OtherError ''eq''))
   \<and> (map fst case_clauses
         = [NoError, XError1] @ XError2 # [XError3, XError12, XError13, XError23,
             ZError1, ZError2, YError1, YError2]
      \<and> py_eq (PyObject (\<lambda>t. Inr (t = XError2))) NoError = Inr False
      \<and> py_eq (PyObject (\<lambda>t. Inr (t = XError2))) XError1 = Inr False
      \<and> py_eq (PyObject (\<lambda>t. Inr (t = XError2))) XError2 = Inr True
      \<and> qcirc (PyObject (\<lambda>t. Inr (t = XError2))) False = qcirc (Member XError2) False)"
proof -
  let ?raising = "PyObject (\<lambda>t. if t = NoError then Inr False else Inl (OtherError ''eq''))"
  let ?equal = "PyObject (\<lambda>t. Inr (t = XError2))"
  let ?rest1 = "[XError2, XError3, XError12, XError13, XError23,
             ZError1, ZError2, YError1, YError2]"
  let ?rest2 = "[XError3, XError12, XError13, XError23,
             ZError1, ZError2, YError1, YError2]"
  have 1: "\<forall>t. py_eq PyNone t = Inr False" by simp
  have c1: "map fst case_clauses = [NoError] @ XError1 # ?rest1"
    and c2: "map fst case_clauses = [NoError, XError1] @ XError2 # ?rest2"
    by (simp_all add: case_clauses_def)
  have 2: "\<forall>s \<in> set [NoError]. py_eq ?raising s = Inr False"
    "py_eq ?raising XError1 = Inl (OtherError ''eq'')"
    by simp_all
  have 3: "\<forall>s \<in> set [NoError, XError1]. py_eq ?equal s = Inr False"
    "py_eq ?equal XError2 = Inr True"
    by simp_all
  from qcirc_unsupported_tag [of PyNone True] 1
  have a: "qcirc PyNone True =
         Inr \<lparr>qregs = [q_reg, d_reg, a_reg], cregs = [(''meas'', 5)],
              data =
                [CXGate q d0, CXGate d0 d1, Barrier [q, d0, d1, a0, a1],
                 Barrier [q, d0, d1, a0, a1],
                 CXGate q a0, CXGate d0 a0, CXGate q a1, CXGate d1 a1,
                 Barrier [q, d0, d1, a0, a1], Barrier [q, d0, d1, a0, a1],
                 Measure q (Clbit ''meas'' 0), Measure d0 (Clbit ''meas'' 1),
                 Measure d1 (Clbit ''meas'' 2), Measure a0 (Clbit ''meas'' 3),
                 Measure a1 (Clbit ''meas'' 4)]\<rparr>"
    by simp
  from qcirc_unsupported_tag [of ?raising False] c1 2
  have b: "qcirc ?raising False = Inl (OtherError ''eq'')" by blast
  from qcirc_unsupported_tag [of ?equal False] c2 3
  have c: "qcirc ?equal False = qcirc (Member XError2) False" by blast
  from 1 a c1 2 b c2 3 c show ?thesis by simp
qed

text \<open>
  C7: \<^verbatim>\<open>qcirc_sim\<close> passes through to the simulator, whatever the simulator is: it runs
  the circuit with 1024 shots, takes the result of the job and returns the counts of the
  result as they are; what \<^verbatim>\<open>run\<close>, \<^verbatim>\<open>result\<close> or \<^verbatim>\<open>get_counts\<close> raises is raised unchanged.
\<close>

theorem qcirc_sim_pass_through:
  "(\<forall>e. run sim qc 1024 = Inl e \<longrightarrow> qcirc_sim sim qc = Inl e)
   \<and> (\<forall>job e. run sim qc 1024 = Inr job \<longrightarrow> job_result sim job = Inl e
        \<longrightarrow> qcirc_sim sim qc = Inl e)
   \<and> (\<forall>job result. run sim qc 1024 = Inr job \<longrightarrow> job_result sim job = Inr result
        \<longrightarrow> qcirc_sim sim qc = get_counts sim result)"
  by (auto simp add: qcirc_sim_def split: sum.splits)

theorem qcirc_sim_pass_through_witness:
  "(run \<lparr>run = (\<lambda>qc shots. Inl QiskitError), job_result = Inr, get_counts = Inr\<rparr>
        (QuantumCircuit [q_reg] [c_reg]) 1024 = Inl QiskitError
    \<and> qcirc_sim \<lparr>run = (\<lambda>qc shots. Inl QiskitError), job_result = Inr, get_counts = Inr\<rparr>
        (QuantumCircuit [q_reg] [c_reg]) = Inl QiskitError)
   \<and> (run \<lparr>run = (\<lambda>qc shots. Inr [(''0'', shots)]), job_result = (\<lambda>job. Inl QiskitError),
            get_counts = Inr\<rparr> (QuantumCircuit [q_reg] [c_reg]) 1024 = Inr [(''0'', 1024)]
    \<and> job_result \<lparr>run = (\<lambda>qc shots. Inr [(''0'', shots)]), job_result = (\<lambda>job. Inl QiskitError),
            get_counts = Inr\<rparr> [(''0'', 1024)] = Inl QiskitError
    \<and> qcirc_sim \<lparr>run = (\<lambda>qc shots. Inr [(''0'', shots)]), job_result = (\<lambda>job. Inl QiskitError),
            get_counts = Inr\<rparr> (QuantumCircuit [q_reg] [c_reg]) = Inl QiskitError)
   \<and> (run qsim (QuantumCircuit [q_reg] [c_reg]) 1024
          = Inr \<lparr>num_measured = 0, outcomes = replicate 1024 ''00''\<rparr>
    \<and> job_result qsim \<lparr>num_measured = 0, outcomes = replicate 1024 ''00''\<rparr>
          = Inr \<lparr>num_measured = 0, outcomes = replicate 1024 ''00''\<rparr>
    \<and> get_counts qsim \<lparr>num_measured = 0, outcomes = replicate 1024 ''00''\<rparr>
          = Inl QiskitError
    \<and> qcirc_sim qsim (QuantumCircuit [q_reg] [c_reg]) = Inl QiskitError)
   \<and> (run qsim \<lparr>qregs = [q_reg], cregs = [c_reg], data = [XGate q, Measure q c0]\<rparr> 1024
          = Inr \<lparr>num_measured = 1, outcomes = replicate 1024 ''01''\<rparr>
    \<and> job_result qsim \<lparr>num_measured = 1, outcomes = replicate 1024 ''01''\<rparr>
          = Inr \<lparr>num_measured = 1, outcomes = replicate 1024 ''01''\<rparr>
    \<and> get_counts qsim \<lparr>num_measured = 1, outcomes = replicate 1024 ''01''\<rparr>
          = Inr [(''01'', 1024)]
    \<and> qcirc_sim qsim \<lparr>qregs = [q_reg], cregs = [c_reg], data = [XGate q, Measure q c0]\<rparr>
          = Inr [(''01'', 1024)])"
proof -
  let ?qc = "QuantumCircuit [q_reg] [c_reg]"
  let ?qm = "\<lparr>qregs = [q_reg], cregs = [c_reg], data = [XGate q, Measure q c0]\<rparr>"
  let ?s1 = "\<lparr>run = (\<lambda>qc shots. Inl QiskitError), job_result = Inr, get_counts = Inr\<rparr>
      :: (Counts, Counts) backend"
  let ?s2 = "\<lparr>run = (\<lambda>qc shots. Inr [(''0'', shots)]), job_result = (\<lambda>job. Inl QiskitError),
            get_counts = Inr\<rparr> :: (Counts, Counts) backend"
  let ?empty = "\<lparr>num_measured = 0, outcomes = replicate 1024 ''00''\<rparr>"
  let ?r = "\<lparr>num_measured = 1, outcomes = replicate 1024 ''01''\<rparr>"
  have k0: "outcome_key ?qc = ''00''"
    by (simp add: outcome_key_def run_shot_def initial_state_def QuantumCircuit_def
        register_key_def register_bits_def bit_char_def c_reg_def upt_rec)
  have k: "outcome_key ?qm = ''01''"
    by (simp add: outcome_key_def run_shot_def initial_state_def
        register_key_def register_bits_def bit_char_def names_defs upt_rec)
  have m0: "measured_clbits ?qc = []"
    by (simp add: measured_clbits_def QuantumCircuit_def)
  have m: "measured_clbits ?qm = [c0]"
    by (simp add: measured_clbits_def)
  have r0: "run qsim ?qc 1024 = Inr ?empty"
    by (simp add: qsim_def k0 m0)
  have j0: "job_result qsim ?empty = Inr ?empty"
    by (simp add: qsim_def)
  have g0: "get_counts qsim ?empty = Inl QiskitError"
    by (simp add: qsim_def)
  have r: "run qsim ?qm 1024 = Inr ?r"
    by (simp add: qsim_def k m)
  have j: "job_result qsim ?r = Inr ?r"
    by (simp add: qsim_def)
  have g: "get_counts qsim ?r = Inr [(''01'', 1024)]"
    by (simp add: qsim_def histogram_replicate)
  have 1: "run ?s1 ?qc 1024 = Inl QiskitError" by simp
  have 2: "run ?s2 ?qc 1024 = Inr [(''0'', 1024)]" "job_result ?s2 [(''0'', 1024)] = Inl QiskitError"
    by simp_all
  from qcirc_sim_pass_through [of ?s1 ?qc] 1
  have a: "qcirc_sim ?s1 ?qc = Inl QiskitError" by blast
  from qcirc_sim_pass_through [of ?s2 ?qc] 2
  have b: "qcirc_sim ?s2 ?qc = Inl QiskitError" by blast
  from qcirc_sim_pass_through [of qsim ?qc] r0 j0 g0
  have d0: "qcirc_sim qsim ?qc = Inl QiskitError" by metis
  from qcirc_sim_pass_through [of qsim ?qm] r j g
  have d: "qcirc_sim qsim ?qm = Inr [(''01'', 1024)]" by metis
  show ?thesis
    using 1 2 a b r0 j0 g0 d0 r j g d by (intro conjI)
qed



text \<open>
  C9, as stated (for every scenario tag only the ancilla qubits are measured), does not
  hold: built with \<^verbatim>\<open>measure_all\<close>, as the notebook does for \<^verbatim>\<open>ZError1\<close>, the circuit
  measures the data qubit \<open>q\<close> and the redundancy qubits as well.
\<close>

theorem measured_qubits_counterexample:
  "map_sum id measured_qubits (qcirc (Member ZError1) True) = Inr [q, d0, d1, a0, a1]
   \<and> q \<noteq> a0 \<and> q \<noteq> a1"
  by (simp add: qcirc_True error_gates_Member measured_qubits_def distinct_names)

text \<open>
  C9, amended: for every scenario tag the circuit built with \<^verbatim>\<open>measure_all\<close> left
  \<^verbatim>\<open>False\<close> measures the two ancilla qubits and no other qubit; built with \<^verbatim>\<open>measure_all\<close>
  it measures all five qubits.
\<close>

theorem measured_qubits_qcirc:
  "map_sum id measured_qubits (qcirc (Member t) False) = Inr [a0, a1]
   \<and> map_sum id measured_qubits (qcirc (Member t) True) = Inr [q, d0, d1, a0, a1]"
proof -
  have "concat (map measured (error_gates (Member t))) = []"
    by (cases t) (simp_all add: error_gates_Member)
  then show ?thesis
    by (simp add: qcirc_False qcirc_True measured_qubits_def)
qed

text \<open>
  C10: on a non-empty histogram \<^verbatim>\<open>counts_bit_reversed\<close> returns a dictionary with exactly
  one key, the reversal of the first key of its input, and the value under it is the
  count of the last key of the input; a histogram of several outcomes is collapsed to
  one entry. The keys of a dictionary are distinct.
\<close>

theorem counts_bit_reversed_collapses:
  assumes "counts \<noteq> []" and "distinct (keys counts)"
  shows "counts_bit_reversed counts = Inr [(rev (fst (hd counts)), snd (last counts))]"
proof -
  from assms(1) obtain k0 v0 d where c: "counts = (k0, v0) # d"
    by (cases counts) auto
  have ne: "keys counts \<noteq> []" using assms(1) by (simp add: keys_def)
  have "set (keys counts) \<subseteq> set (keys ((k0, v0) # d))" by (simp add: c)
  from loop_single [OF this ne, of "[]"]
  obtain v where v: "dict_get counts (last (keys counts)) = Inr v"
    and l: "counts_bit_reversed_loop counts (keys counts) [] = Inr [(rev k0, v)]"
    by (auto simp add: c)
  have "last (keys counts) = fst (last counts)"
    using assms(1) by (simp add: keys_def last_map)
  with v dict_get_last [OF assms] have "v = snd (last counts)" by simp
  with l show ?thesis by (simp add: counts_bit_reversed_def c)
qed

theorem counts_bit_reversed_collapses_witness:
  "[(''01'', 1000), (''110'', 24::nat)] \<noteq> [] \<and> distinct (keys [(''01'', 1000), (''110'', 24::nat)])
   \<and> counts_bit_reversed [(''01'', 1000), (''110'', 24)] = Inr [(''10'', 24)]"
  using counts_bit_reversed_collapses [of "[(''01'', 1000), (''110'', 24)]"]
  by (simp add: keys_def)

end
